theory Spec2Isabelle
  imports Main
begin

section \<open>Data model of the proxy package\<close>

text \<open>
  The development embeds \<^verbatim>\<open>app/proxy/proxy.go\<close>: the request handler \<^verbatim>\<open>Handle\<close>,
  the pre-flight handler \<^verbatim>\<open>HandleCORS\<close> and the classifier \<^verbatim>\<open>GetAuthError\<close>.
  Go values that may be \<^verbatim>\<open>nil\<close> (pointers, the \<^verbatim>\<open>error\<close> interface) are options.
  A \<^verbatim>\<open>[]byte\<close> is a \<open>string\<close>.
\<close>

type_synonym bytes = string

text \<open>A decoded JSON value, as held by an \<^verbatim>\<open>interface{}\<close> field; \<open>JNull\<close> is the nil interface.\<close>

datatype json =
    JNull
  | JBool bool
  | JNumber int
  | JString string
  | JArray "json list"
  | JObject "(string \<times> json) list"

text \<open>
  The errors the handler meets. \<open>Err msg\<close> is \<^verbatim>\<open>errors.Err(msg)\<close> and stands for every
  error that is only a message (a read error, a decoding error, a transport error);
  \<open>ErrNoAuthInfo\<close> is the sentinel \<^verbatim>\<open>auth.ErrNoAuthInfo\<close>; \<open>AuthRequiredError\<close> is
  \<^verbatim>\<open>rpcerrors.NewAuthRequiredError()\<close> and \<open>ForbiddenError e\<close> is
  \<^verbatim>\<open>rpcerrors.NewForbiddenError(e)\<close>.
\<close>

datatype error =
    Err string
  | ErrNoAuthInfo
  | AuthRequiredError
  | ForbiddenError error

text \<open>\<^verbatim>\<open>jsonrpc.RPCRequest\<close>, \<^verbatim>\<open>jsonrpc.RPCError\<close> and \<^verbatim>\<open>jsonrpc.RPCResponse\<close>.\<close>

record RPCRequest =
  Method :: string
  Params :: json
  reqID :: int

record RPCError =
  Code :: int
  Message :: string
  Data :: json

record RPCResponse =
  Result :: json
  Error :: "RPCError option"
  resID :: int

text \<open>\<^verbatim>\<open>models.User\<close>: the handler reads the field \<^verbatim>\<open>ID\<close> only.\<close>

record User =
  ID :: int

text \<open>The labels \<^verbatim>\<open>metrics.FailureKind*\<close> that the handler passes to the failure histogram.\<close>

datatype failure_kind =
    FailureKindClient
  | FailureKindClientJSON
  | FailureKindAuth
  | FailureKindNet
  | FailureKindRPCJSON
  | FailureKindRPC

text \<open>
  The two closures that \<^verbatim>\<open>Handle\<close> registers as postflight hooks, with the variables they
  capture: the first adds the log field \<^verbatim>\<open>remote_ip\<close>, the second calls
  \<^verbatim>\<open>audit.LogQuery(userID, remoteIP, query.MethodWalletSend, body)\<close>.
\<close>

datatype hook =
    LogRemoteIP string
  | AuditLogQuery int string bytes

type_synonym QueryCache = nat

text \<open>
  Modelled from the spec: \<^verbatim>\<open>query.Caller\<close> is missing from the sources. The spec
  describes it as transient, one per request, holding the bound backend address, the bound
  user id (0 for anonymous), the registered hooks and the attached cache handle.
\<close>

record Caller =
  caller_endpoint :: string
  caller_userID :: int
  caller_hooks :: "(string \<times> hook) list"
  Cache :: "QueryCache option"

definition NewCaller :: "string \<Rightarrow> int \<Rightarrow> Caller" where
  "NewCaller sdkAddress userID =
     \<lparr>caller_endpoint = sdkAddress, caller_userID = userID, caller_hooks = [], Cache = None\<rparr>"

definition AddPostflightHook :: "string \<Rightarrow> hook \<Rightarrow> Caller \<Rightarrow> Caller" where
  "AddPostflightHook pattern h c = c\<lparr>caller_hooks := caller_hooks c @ [(pattern, h)]\<rparr>"

text \<open>
  Modelled from the spec: \<^verbatim>\<open>sdkrouter.Router\<close> is missing from the sources. The spec's
  backend registry holds an ordered collection of backend descriptors (network addresses) and
  a mapping from user id to a previously chosen backend address.
\<close>

record LbrynetServer =
  Address :: string

record Router =
  servers :: "LbrynetServer list"
  bindings :: "int \<rightharpoonup> string"

text \<open>
  Modelled from the spec: \<^verbatim>\<open>sdkrouter.GetSDKAddress\<close> is missing from the sources. The
  spec's \<^verbatim>\<open>bindingFor(userID)\<close> returns the sticky backend if one exists for that user;
  an anonymous request has none. The handler tests the result against the empty string.
\<close>

definition GetSDKAddress :: "Router \<Rightarrow> User option \<Rightarrow> string" where
  "GetSDKAddress rt user =
     (case user of
        None \<Rightarrow> ''''
      | Some u \<Rightarrow> (case bindings rt (ID u) of None \<Rightarrow> '''' | Some a \<Rightarrow> a))"

text \<open>
  Modelled from the spec: \<^verbatim>\<open>Router.RandomServer\<close> is missing from the sources. The
  spec's \<^verbatim>\<open>pickRandom()\<close> is a uniform selection among the live backends. The random
  source is the argument \<open>draw\<close>; the server picked is the one at position
  \<open>draw mod n\<close> of the \<open>n\<close> live backends, and there is none to pick when the pool is empty.
\<close>

definition RandomServer :: "Router \<Rightarrow> nat \<Rightarrow> LbrynetServer option" where
  "RandomServer rt draw =
     (if servers rt = [] then None
      else Some (servers rt ! (draw mod length (servers rt))))"

text \<open>
  The \<^verbatim>\<open>http.Request\<close> as the handler reads it: the body (\<open>None\<close> is a nil \<^verbatim>\<open>r.Body\<close>,
  \<open>Inl e\<close> a body that \<^verbatim>\<open>ioutil.ReadAll\<close> fails on, \<open>Inr b\<close> its bytes), and the values
  that \<^verbatim>\<open>auth.FromRequest\<close>, \<^verbatim>\<open>cache.IsOnRequest\<close>/\<^verbatim>\<open>cache.FromRequest\<close> and
  \<^verbatim>\<open>ip.FromRequest\<close> read from it.
\<close>

record Request =
  Body :: "(error + bytes) option"
  auth_FromRequest :: "User option \<times> error option"
  cache_FromRequest :: "QueryCache option"
  ip_FromRequest :: string

text \<open>
  The \<^verbatim>\<open>http.ResponseWriter\<close>, with the behaviour net/http documents: the header map can
  be changed until the status line is written; \<^verbatim>\<open>WriteHeader\<close> sends the status and the
  header map as it is then, and a second call has no effect; the first \<^verbatim>\<open>Write\<close> sends
  status 200 when no status was written before.
\<close>

record ResponseWriter =
  header :: "string \<rightharpoonup> string list"
  wroteHeader :: bool
  status :: nat
  sent_header :: "string \<rightharpoonup> string list"
  written :: bytes

definition Header_Set :: "string \<Rightarrow> string \<Rightarrow> ResponseWriter \<Rightarrow> ResponseWriter" where
  "Header_Set k v w = w\<lparr>header := (header w)(k \<mapsto> [v])\<rparr>"

definition w_WriteHeader :: "nat \<Rightarrow> ResponseWriter \<Rightarrow> ResponseWriter" where
  "w_WriteHeader code w =
     (if wroteHeader w then w
      else w\<lparr>wroteHeader := True, status := code, sent_header := header w\<rparr>)"

definition w_Write :: "bytes \<Rightarrow> ResponseWriter \<Rightarrow> ResponseWriter" where
  "w_Write b w =
     (let w' = (if wroteHeader w then w else w_WriteHeader 200 w)
      in w'\<lparr>written := written w' @ b\<rparr>)"

text \<open>A response writer nothing was written to, with any header map.\<close>

definition new_writer :: "(string \<rightharpoonup> string list) \<Rightarrow> ResponseWriter" where
  "new_writer h =
     \<lparr>header = h, wroteHeader = False, status = 0, sent_header = Map.empty, written = []\<rparr>"

abbreviation StatusOK :: nat where "StatusOK \<equiv> 200"
abbreviation StatusBadRequest :: nat where "StatusBadRequest \<equiv> 400"

text \<open>
  What the handler does besides writing the response and observing metrics, in the order
  it does it: constructing the caller, registering a hook, installing the lbrynext hooks,
  calling the backend through the caller, and reporting an error to Sentry.
\<close>

datatype event =
    EvNewCaller string int
  | EvAddPostflightHook string hook
  | EvInstallHooks
  | EvCall Caller RPCRequest
  | EvErrorToSentry error

text \<open>
  The state a request runs in: its response writer, the two histograms of the metrics
  package (an observation is kept as its label values; the measured duration is left out),
  the events above, and the router.
\<close>

record world =
  rw :: ResponseWriter
  ProxyE2ECallDurations :: "(string \<times> string) list"
  ProxyE2ECallFailedDurations :: "(string \<times> string \<times> failure_kind) list"
  events :: "event list"
  router :: Router

text \<open>
  The collaborators of the handler whose code is not in the sources, taken as parameters:
  \<^item> \<open>Unmarshal\<close> is \<^verbatim>\<open>json.Unmarshal(body, &rpcReq)\<close> for \<^verbatim>\<open>rpcReq\<close> a
    \<^verbatim>\<open>*jsonrpc.RPCRequest\<close>: an error, or the pointer it leaves in \<^verbatim>\<open>rpcReq\<close>, which
    is nil when the body is the JSON literal \<^verbatim>\<open>null\<close>;
  \<^item> \<open>MethodRequiresWallet\<close>, \<open>MethodAcceptsWallet\<close> and the constant
    \<open>MethodWalletSend\<close> are those of the package \<^verbatim>\<open>query\<close>;
  \<^item> \<open>errors_Is\<close> is \<^verbatim>\<open>errors.Is\<close>;
  \<^item> \<open>InstallHooks\<close> is \<^verbatim>\<open>lbrynext.InstallHooks\<close>, which changes the caller it is given;
  \<^item> \<open>Call c req\<close> is the pair \<^verbatim>\<open>(rpcRes, err)\<close> that \<^verbatim>\<open>c.Call(rpcReq)\<close> returns;
  \<^item> \<open>JSONRPCSerialize\<close> is \<^verbatim>\<open>responses.JSONRPCSerialize\<close>: an error or the bytes;
  \<^item> \<open>NewJSONParseError_JSON e\<close> is \<^verbatim>\<open>rpcerrors.NewJSONParseError(e).JSON()\<close>,
    \<open>NewInternalError_JSON e\<close> is \<^verbatim>\<open>rpcerrors.NewInternalError(e).JSON()\<close>, and
    \<open>ErrorToJSON\<close> and \<open>ToJSON\<close> are the functions of these names of \<^verbatim>\<open>rpcerrors\<close>;
  \<^item> \<open>TokenHeader\<close> is the constant \<^verbatim>\<open>wallet.TokenHeader\<close>, and \<open>JSONContentType\<close>
    the value that \<^verbatim>\<open>responses.AddJSONContentType\<close> gives the Content-Type header.
\<close>

record env =
  Unmarshal :: "bytes \<Rightarrow> error + RPCRequest option"
  MethodRequiresWallet :: "string \<Rightarrow> json \<Rightarrow> bool"
  MethodAcceptsWallet :: "string \<Rightarrow> bool"
  MethodWalletSend :: string
  errors_Is :: "error option \<Rightarrow> error option \<Rightarrow> bool"
  InstallHooks :: "Caller \<Rightarrow> Caller"
  Call :: "Caller \<Rightarrow> RPCRequest \<Rightarrow> RPCResponse option \<times> error option"
  JSONRPCSerialize :: "RPCResponse option \<Rightarrow> error + bytes"
  NewJSONParseError_JSON :: "error \<Rightarrow> bytes"
  ErrorToJSON :: "error \<Rightarrow> bytes"
  ToJSON :: "error \<Rightarrow> bytes"
  NewInternalError_JSON :: "error \<Rightarrow> bytes"
  TokenHeader :: string
  JSONContentType :: string

section \<open>The functions of proxy.go\<close>

subsection \<open>GetAuthError\<close>

definition GetAuthError :: "env \<Rightarrow> User option \<Rightarrow> error option \<Rightarrow> error option" where
  "GetAuthError env user err =
     (if err = None \<and> user \<noteq> None then None
      else if errors_Is env err (Some ErrNoAuthInfo) then Some AuthRequiredError
      else (case err of
              Some e \<Rightarrow> Some (ForbiddenError e)
            | None \<Rightarrow>
                if user = None then Some (ForbiddenError (Err ''must authenticate''))
                else Some (Err ''unknown auth error'')))"

subsection \<open>HandleCORS\<close>

definition HandleCORS :: "env \<Rightarrow> ResponseWriter \<Rightarrow> Request \<Rightarrow> ResponseWriter" where
  "HandleCORS env w r =
     w_WriteHeader StatusOK
       (Header_Set ''Access-Control-Allow-Headers''
          (TokenHeader env @ '', Origin, X-Requested-With, Content-Type, Accept'')
          (Header_Set ''Access-Control-Allow-Origin'' ''*''
             (Header_Set ''Access-Control-Max-Age'' ''7200'' w)))"

subsection \<open>The observer\<close>

text \<open>
  \<^verbatim>\<open>observeFailure\<close> observes the call in both histograms, \<^verbatim>\<open>observeSuccess\<close> in the
  first one only.
\<close>

definition observeFailure :: "string \<Rightarrow> string \<Rightarrow> failure_kind \<Rightarrow> world \<Rightarrow> world" where
  "observeFailure method endpoint kind s =
     s\<lparr>ProxyE2ECallDurations := ProxyE2ECallDurations s @ [(method, endpoint)],
       ProxyE2ECallFailedDurations :=
         ProxyE2ECallFailedDurations s @ [(method, endpoint, kind)]\<rparr>"

definition observeSuccess :: "string \<Rightarrow> string \<Rightarrow> world \<Rightarrow> world" where
  "observeSuccess method endpoint s =
     s\<lparr>ProxyE2ECallDurations := ProxyE2ECallDurations s @ [(method, endpoint)]\<rparr>"

subsection \<open>Handle\<close>

text \<open>The statements of the handler, as functions on the state.\<close>

definition WriteHeader :: "nat \<Rightarrow> world \<Rightarrow> world" where
  "WriteHeader code s = s\<lparr>rw := w_WriteHeader code (rw s)\<rparr>"

definition Write :: "bytes \<Rightarrow> world \<Rightarrow> world" where
  "Write b s = s\<lparr>rw := w_Write b (rw s)\<rparr>"

definition emit :: "event \<Rightarrow> world \<Rightarrow> world" where
  "emit ev s = s\<lparr>events := events s @ [ev]\<rparr>"

text \<open>
  Modelled from the spec: \<^verbatim>\<open>responses.AddJSONContentType\<close> is missing from the sources.
  The spec only says that the response is a JSON-RPC response object; the helper is taken to
  set the Content-Type header, to a value that is a parameter, and to leave the status line
  and the body alone.
\<close>

definition AddJSONContentType :: "env \<Rightarrow> world \<Rightarrow> world" where
  "AddJSONContentType env s =
     s\<lparr>rw := Header_Set ''Content-Type'' (JSONContentType env) (rw s)\<rparr>"

text \<open>A block of statements runs them in order.\<close>

definition exec :: "(world \<Rightarrow> world) list \<Rightarrow> world \<Rightarrow> world" where
  "exec stmts s = fold (\<lambda>stmt. stmt) stmts s"

text \<open>A run of the handler returns, or panics on a nil pointer.\<close>

datatype outcome = Returned | Panicked

text \<open>
  Lines 105 to 108: the user id of the caller is that of the user only when the method
  accepts a wallet and a user was resolved, and 0 otherwise.
\<close>

definition Handle_userID :: "env \<Rightarrow> RPCRequest \<Rightarrow> User option \<Rightarrow> int" where
  "Handle_userID env rpcReq user =
     (if MethodAcceptsWallet env (Method rpcReq) \<and> user \<noteq> None then ID (the user) else 0)"

text \<open>
  Lines 110 to 114: the backend address is the one \<^verbatim>\<open>sdkrouter.GetSDKAddress\<close> gives
  for the user and, when that is the empty string, the address of a random server of the
  router. \<^verbatim>\<open>rt.RandomServer().Address\<close> dereferences the server it is given: \<open>None\<close>
  is the panic on a nil server.
\<close>

definition Handle_sdkAddress :: "Router \<Rightarrow> nat \<Rightarrow> User option \<Rightarrow> string option" where
  "Handle_sdkAddress rt draw user =
     (let sdkAddress = GetSDKAddress rt user
      in if sdkAddress = ''''
         then (case RandomServer rt draw of None \<Rightarrow> None | Some srv \<Rightarrow> Some (Address srv))
         else Some sdkAddress)"

text \<open>
  Lines 116 to 134: the caller is constructed and given its two hooks, the lbrynext hooks
  and the cache of the request (\<open>None\<close> when the request has none).
\<close>

definition Handle_caller :: "env \<Rightarrow> Request \<Rightarrow> bytes \<Rightarrow> int \<Rightarrow> string \<Rightarrow> Caller" where
  "Handle_caller env r body userID sdkAddress =
     (let qCache = cache_FromRequest r;
          c0 = NewCaller sdkAddress userID;
          remoteIP = ip_FromRequest r;
          c1 = AddPostflightHook ''wallet_'' (LogRemoteIP remoteIP) c0;
          c2 = AddPostflightHook (MethodWalletSend env)
                 (AuditLogQuery userID remoteIP body) c1;
          c3 = InstallHooks env c2
      in c3\<lparr>Cache := qCache\<rparr>)"

text \<open>The events of lines 120 to 136, in their order.\<close>

definition Handle_events ::
  "env \<Rightarrow> Request \<Rightarrow> bytes \<Rightarrow> RPCRequest \<Rightarrow> int \<Rightarrow> string \<Rightarrow> event list" where
  "Handle_events env r body rpcReq userID sdkAddress =
     [EvNewCaller sdkAddress userID,
      EvAddPostflightHook ''wallet_'' (LogRemoteIP (ip_FromRequest r)),
      EvAddPostflightHook (MethodWalletSend env)
        (AuditLogQuery userID (ip_FromRequest r) body),
      EvInstallHooks,
      EvCall (Handle_caller env r body userID sdkAddress) rpcReq]"

text \<open>
  Lines 116 to 171: the events of constructing the caller are recorded, the backend is
  called and the result is written. The logging statements are left out.
  \<^verbatim>\<open>rpcRes.Error\<close> on line 159 dereferences \<^verbatim>\<open>rpcRes\<close>.
\<close>

definition Handle_call ::
  "env \<Rightarrow> Request \<Rightarrow> bytes \<Rightarrow> RPCRequest \<Rightarrow> int \<Rightarrow> string \<Rightarrow> world \<Rightarrow> outcome \<times> world" where
  "Handle_call env r body rpcReq userID sdkAddress s =
     (let c = Handle_caller env r body userID sdkAddress;
          s1 = exec (map emit (Handle_events env r body rpcReq userID sdkAddress)) s;
          (rpcRes, err) = Call env c rpcReq
      in case err of
           Some e \<Rightarrow>
             (Returned,
              exec [emit (EvErrorToSentry e),
                    Write (ToJSON env e),
                    observeFailure (Method rpcReq) sdkAddress FailureKindNet] s1)
         | None \<Rightarrow>
             (case JSONRPCSerialize env rpcRes of
                Inl e \<Rightarrow>
                  (Returned,
                   exec [emit (EvErrorToSentry e),
                         Write (NewInternalError_JSON env e),
                         observeFailure (Method rpcReq) sdkAddress FailureKindRPCJSON] s1)
              | Inr serialized \<Rightarrow>
                  (case rpcRes of
                     None \<Rightarrow> (Panicked, s1)
                   | Some res \<Rightarrow>
                       (Returned,
                        exec [if Error res \<noteq> None
                              then observeFailure (Method rpcReq) sdkAddress FailureKindRPC
                              else observeSuccess (Method rpcReq) sdkAddress,
                              Write serialized] s1))))"

text \<open>
  Lines 94 to 114: the user of the request is resolved, a method that requires a wallet is
  refused when \<^verbatim>\<open>GetAuthError\<close> gives an error, and the user id and the backend address
  of the caller are chosen. \<^verbatim>\<open>sdkrouter.FromRequest(r)\<close> is the router of the state.
\<close>

definition Handle_request ::
  "env \<Rightarrow> nat \<Rightarrow> Request \<Rightarrow> bytes \<Rightarrow> RPCRequest \<Rightarrow> world \<Rightarrow> outcome \<times> world" where
  "Handle_request env draw r body rpcReq s =
     (let (user, err) = auth_FromRequest r
      in case (if MethodRequiresWallet env (Method rpcReq) (Params rpcReq)
               then GetAuthError env user err else None) of
           Some authErr \<Rightarrow>
             (Returned,
              exec [Write (ErrorToJSON env authErr),
                    observeFailure (Method rpcReq) '''' FailureKindAuth] s)
         | None \<Rightarrow>
             (let userID = Handle_userID env rpcReq user
              in case Handle_sdkAddress (router s) draw user of
                   None \<Rightarrow> (Panicked, s)
                 | Some sdkAddress \<Rightarrow> Handle_call env r body rpcReq userID sdkAddress s))"

text \<open>
  Lines 56 to 92: the body is read and decoded. After a successful \<^verbatim>\<open>json.Unmarshal\<close>
  line 92 reads \<^verbatim>\<open>rpcReq.Method\<close>, which dereferences \<^verbatim>\<open>rpcReq\<close>.
\<close>

definition Handle :: "env \<Rightarrow> nat \<Rightarrow> Request \<Rightarrow> world \<Rightarrow> outcome \<times> world" where
  "Handle env draw r s0 =
     (let s = AddJSONContentType env s0
      in case Body r of
           None \<Rightarrow>
             (Returned,
              exec [WriteHeader StatusBadRequest,
                    Write (NewJSONParseError_JSON env (Err ''empty request body'')),
                    observeFailure '''' '''' FailureKindClient] s)
         | Some (Inl e) \<Rightarrow>
             (Returned,
              exec [WriteHeader StatusBadRequest,
                    Write (NewJSONParseError_JSON env (Err ''error reading request body'')),
                    observeFailure '''' '''' FailureKindClient] s)
         | Some (Inr body) \<Rightarrow>
             (case Unmarshal env body of
                Inl e \<Rightarrow>
                  (Returned,
                   exec [Write (NewJSONParseError_JSON env e),
                         observeFailure '''' '''' FailureKindClientJSON] s)
              | Inr None \<Rightarrow> (Panicked, s)
              | Inr (Some rpcReq) \<Rightarrow> Handle_request env draw r body rpcReq s))"

section \<open>JSON-RPC envelopes on the wire\<close>

text \<open>
  Modelled from the spec: the package \<^verbatim>\<open>rpcerrors\<close> and
  \<^verbatim>\<open>responses.JSONRPCSerialize\<close> are missing from the sources. The spec says that all
  failure kinds are converted into JSON-RPC error envelopes, and that a response is a
  JSON-RPC response object with a \<^verbatim>\<open>result\<close> or an \<^verbatim>\<open>error\<close> and an
  \<^verbatim>\<open>id\<close>. The encoders are taken to write the JSON text of such an object. The JSON
  text of a value is the compact one: no white space, a string in double quotes with the
  quote, the backslash and the control characters escaped, an integer in decimal.
\<close>

fun show_nat :: "nat \<Rightarrow> string" where
  "show_nat n =
     (if n < 10 then [char_of (48 + n)]
      else show_nat (n div 10) @ [char_of (48 + n mod 10)])"

definition show_int :: "int \<Rightarrow> string" where
  "show_int i = (if i < 0 then CHR ''-'' # show_nat (nat (- i)) else show_nat (nat i))"

definition hex_digit :: "nat \<Rightarrow> char" where
  "hex_digit n = (if n < 10 then char_of (48 + n) else char_of (87 + n))"

definition escape_char :: "char \<Rightarrow> string" where
  "escape_char c =
     (if c = CHR 0x22 then [CHR 0x5C, CHR 0x22]
      else if c = CHR 0x5C then [CHR 0x5C, CHR 0x5C]
      else if (of_char c :: nat) < 32
      then [CHR 0x5C, CHR ''u'', CHR ''0'', CHR ''0'',
            hex_digit (of_char c div 16), hex_digit (of_char c mod 16)]
      else [c])"

definition quote :: "string \<Rightarrow> string" where
  "quote s = CHR 0x22 # concat (map escape_char s) @ [CHR 0x22]"

fun join :: "string \<Rightarrow> string list \<Rightarrow> string" where
  "join sep [] = []"
| "join sep [x] = x"
| "join sep (x # y # ys) = x @ sep @ join sep (y # ys)"

fun render :: "json \<Rightarrow> string" where
  "render JNull = ''null''"
| "render (JBool b) = (if b then ''true'' else ''false'')"
| "render (JNumber i) = show_int i"
| "render (JString s) = quote s"
| "render (JArray xs) = ''['' @ join '','' (map render xs) @ '']''"
| "render (JObject kvs) =
     ''{'' @ join '','' (map (\<lambda>kv. quote (fst kv) @ '':'' @ render (snd kv)) kvs) @ ''}''"

text \<open>
  The response object of an error: the members \<^verbatim>\<open>jsonrpc\<close>, \<^verbatim>\<open>error\<close> (with its
  \<^verbatim>\<open>code\<close> and \<^verbatim>\<open>message\<close>) and \<^verbatim>\<open>id\<close>.
\<close>

definition error_json :: "int \<Rightarrow> string \<Rightarrow> json" where
  "error_json code msg =
     JObject [(''jsonrpc'', JString ''2.0''),
              (''error'', JObject [(''code'', JNumber code), (''message'', JString msg)]),
              (''id'', JNumber 0)]"

text \<open>
  The response object of a \<^verbatim>\<open>jsonrpc.RPCResponse\<close>: \<^verbatim>\<open>result\<close>, \<^verbatim>\<open>error\<close> and
  the \<^verbatim>\<open>data\<close> of the error are left out when nil; a nil response is \<^verbatim>\<open>null\<close>.
\<close>

definition rpc_error_json :: "RPCError \<Rightarrow> json" where
  "rpc_error_json e =
     JObject ([(''code'', JNumber (Code e)), (''message'', JString (Message e))]
              @ (if Data e = JNull then [] else [(''data'', Data e)]))"

definition response_json :: "RPCResponse option \<Rightarrow> json" where
  "response_json rpcRes =
     (case rpcRes of
        None \<Rightarrow> JNull
      | Some res \<Rightarrow>
          JObject ([(''jsonrpc'', JString ''2.0'')]
                   @ (if Result res = JNull then [] else [(''result'', Result res)])
                   @ (case Error res of
                        None \<Rightarrow> []
                      | Some e \<Rightarrow> [(''error'', rpc_error_json e)])
                   @ [(''id'', JNumber (resID res))]))"

text \<open>
  The parameters of the modelled encoders: the codes of a parse error and of an internal
  error, the code and the message that an error is given, and the responses on which the
  serializer fails, each with its error.
\<close>

record rpcerrors =
  rpcErrorCodeJSONParse :: int
  rpcErrorCodeInternal :: int
  error_code :: "error \<Rightarrow> int"
  error_text :: "error \<Rightarrow> string"
  marshal_error :: "RPCResponse option \<Rightarrow> error option"

text \<open>An environment with the modelled encoders and the modelled serializer.\<close>

definition rpcerrors_env :: "rpcerrors \<Rightarrow> env \<Rightarrow> env" where
  "rpcerrors_env p env =
     env\<lparr>JSONRPCSerialize :=
           (\<lambda>rpcRes. case marshal_error p rpcRes of
                        Some e \<Rightarrow> Inl e
                      | None \<Rightarrow> Inr (render (response_json rpcRes))),
         NewJSONParseError_JSON :=
           (\<lambda>e. render (error_json (rpcErrorCodeJSONParse p) (error_text p e))),
         ErrorToJSON := (\<lambda>e. render (error_json (error_code p e) (error_text p e))),
         ToJSON := (\<lambda>e. render (error_json (error_code p e) (error_text p e))),
         NewInternalError_JSON :=
           (\<lambda>e. render (error_json (rpcErrorCodeInternal p) (error_text p e)))\<rparr>"

text \<open>
  A JSON value is an error envelope when it is an object whose member \<^verbatim>\<open>error\<close> is an
  object with a number as its \<^verbatim>\<open>code\<close> and a string as its \<^verbatim>\<open>message\<close>. Bytes are
  a well-formed error envelope when they are the JSON text of such a value.
\<close>

fun error_member :: "json \<Rightarrow> bool" where
  "error_member (JObject kvs) =
     (case (map_of kvs ''code'', map_of kvs ''message'') of
        (Some (JNumber code), Some (JString msg)) \<Rightarrow> True
      | _ \<Rightarrow> False)"
| "error_member _ = False"

fun error_envelope_json :: "json \<Rightarrow> bool" where
  "error_envelope_json (JObject kvs) =
     (case map_of kvs ''error'' of Some e \<Rightarrow> error_member e | None \<Rightarrow> False)"
| "error_envelope_json _ = False"

definition is_error_envelope :: "bytes \<Rightarrow> bool" where
  "is_error_envelope b \<longleftrightarrow> (\<exists>j. b = render j \<and> error_envelope_json j)"

text \<open>
  A run answers with \<open>b\<close> when it returns and its only writes to the response writer are
  the Content-Type header, the status \<open>code\<close> if there is one, and the body \<open>b\<close>, which is
  a well-formed error envelope.
\<close>

definition answers_with :: "env \<Rightarrow> world \<Rightarrow> nat option \<Rightarrow> bytes \<Rightarrow> outcome \<times> world \<Rightarrow> bool" where
  "answers_with env s code b run \<longleftrightarrow>
     fst run = Returned \<and>
     rw (snd run) =
       w_Write b
         ((case code of None \<Rightarrow> (\<lambda>w. w) | Some c \<Rightarrow> w_WriteHeader c)
            (Header_Set ''Content-Type'' (JSONContentType env) (rw s))) \<and>
     is_error_envelope b"

section \<open>A concrete environment\<close>

text \<open>
  An environment on which the definitions can be run: two methods, \<^verbatim>\<open>wallet_send\<close>, which
  requires a wallet and to which the backend answers with an error, and \<^verbatim>\<open>status\<close>,
  which neither requires nor accepts one; a decoder that knows three request bodies, one
  of them the JSON literal \<^verbatim>\<open>null\<close>; a pool of two backends, and the user 7 bound to the
  second.
\<close>

definition wallet_send_body :: bytes where
  \<open>wallet_send_body = ''{"jsonrpc":"2.0","method":"wallet_send","params":{"amount":"1.0"},"id":1}''\<close>

definition status_body :: bytes where
  \<open>status_body = ''{"jsonrpc":"2.0","method":"status","id":2}''\<close>

definition wallet_send_request :: RPCRequest where
  "wallet_send_request =
     \<lparr>Method = ''wallet_send'', Params = JObject [(''amount'', JString ''1.0'')], reqID = 1\<rparr>"

definition status_request :: RPCRequest where
  "status_request = \<lparr>Method = ''status'', Params = JNull, reqID = 2\<rparr>"

definition demo_Unmarshal :: "bytes \<Rightarrow> error + RPCRequest option" where
  "demo_Unmarshal b =
     (if b = ''null'' then Inr None
      else if b = wallet_send_body then Inr (Some wallet_send_request)
      else if b = status_body then Inr (Some status_request)
      else Inl (Err ''invalid character''))"

definition insufficient_funds :: RPCResponse where
  "insufficient_funds =
     \<lparr>Result = JNull,
      Error = Some \<lparr>Code = - 32500, Message = ''insufficient funds'', Data = JNull\<rparr>,
      resID = 1\<rparr>"

definition status_ok :: RPCResponse where
  "status_ok = \<lparr>Result = JObject [(''is_running'', JBool True)], Error = None, resID = 2\<rparr>"

definition demo_Call :: "Caller \<Rightarrow> RPCRequest \<Rightarrow> RPCResponse option \<times> error option" where
  "demo_Call c req =
     (if Method req = ''wallet_send'' then (Some insufficient_funds, None)
      else (Some status_ok, None))"

definition error_bytes :: bytes where
  \<open>error_bytes = ''{"jsonrpc":"2.0","error":{"code":-32500,"message":"insufficient funds"},"id":1}''\<close>

definition result_bytes :: bytes where
  \<open>result_bytes = ''{"jsonrpc":"2.0","result":{"is_running":true},"id":2}''\<close>

definition proxy_error_bytes :: bytes where
  \<open>proxy_error_bytes = ''{"jsonrpc":"2.0","error":{"code":-32080,"message":"proxy error"},"id":0}''\<close>

definition demo_JSONRPCSerialize :: "RPCResponse option \<Rightarrow> error + bytes" where
  "demo_JSONRPCSerialize rpcRes =
     (case rpcRes of
        None \<Rightarrow> Inr ''null''
      | Some res \<Rightarrow> (if Error res \<noteq> None then Inr error_bytes else Inr result_bytes))"

definition demo_env :: env where
  "demo_env =
     \<lparr>Unmarshal = demo_Unmarshal,
      MethodRequiresWallet = (\<lambda>method params. method = ''wallet_send''),
      MethodAcceptsWallet = (\<lambda>method. method = ''wallet_send''),
      MethodWalletSend = ''wallet_send'',
      errors_Is = (\<lambda>err target. err \<noteq> None \<and> err = target),
      InstallHooks = (\<lambda>c. c),
      Call = demo_Call,
      JSONRPCSerialize = demo_JSONRPCSerialize,
      NewJSONParseError_JSON = (\<lambda>e. proxy_error_bytes),
      ErrorToJSON = (\<lambda>e. proxy_error_bytes),
      ToJSON = (\<lambda>e. proxy_error_bytes),
      NewInternalError_JSON = (\<lambda>e. proxy_error_bytes),
      TokenHeader = ''X-Lbry-Auth-Token'',
      JSONContentType = ''application/json; charset=utf-8''\<rparr>"

definition demo_router :: Router where
  "demo_router =
     \<lparr>servers = [\<lparr>Address = ''http://lbrynet1:5279''\<rparr>, \<lparr>Address = ''http://lbrynet2:5279''\<rparr>],
      bindings = [7 \<mapsto> ''http://lbrynet2:5279'']\<rparr>"

definition demo_world :: world where
  "demo_world =
     \<lparr>rw = new_writer Map.empty,
      ProxyE2ECallDurations = [],
      ProxyE2ECallFailedDurations = [],
      events = [],
      router = demo_router\<rparr>"

text \<open>Requests: a body, and who sent it.\<close>

definition anonymous_request :: "bytes \<Rightarrow> Request" where
  "anonymous_request body =
     \<lparr>Body = Some (Inr body),
      auth_FromRequest = (None, Some ErrNoAuthInfo),
      cache_FromRequest = None,
      ip_FromRequest = ''203.0.113.9''\<rparr>"

definition user_request :: "int \<Rightarrow> bytes \<Rightarrow> Request" where
  "user_request uid body =
     \<lparr>Body = Some (Inr body),
      auth_FromRequest = (Some \<lparr>ID = uid\<rparr>, None),
      cache_FromRequest = None,
      ip_FromRequest = ''203.0.113.9''\<rparr>"

text \<open>
  Parameters for the modelled encoders, a backend that cannot be reached, a serializer that
  fails, and two requests whose body cannot be used.
\<close>

definition demo_rpcerrors :: rpcerrors where
  "demo_rpcerrors =
     \<lparr>rpcErrorCodeJSONParse = - 32700,
      rpcErrorCodeInternal = - 32080,
      error_code = (\<lambda>e. case e of AuthRequiredError \<Rightarrow> - 32084
                              | ForbiddenError _ \<Rightarrow> - 32085
                              | _ \<Rightarrow> - 32080),
      error_text = (\<lambda>e. case e of Err msg \<Rightarrow> msg
                              | ErrNoAuthInfo \<Rightarrow> ''authentication token missing''
                              | AuthRequiredError \<Rightarrow> ''authentication required''
                              | ForbiddenError _ \<Rightarrow> ''forbidden''),
      marshal_error = (\<lambda>rpcRes. None)\<rparr>"

definition unreachable_env :: env where
  "unreachable_env = demo_env\<lparr>Call := (\<lambda>c req. (None, Some (Err ''connection refused'')))\<rparr>"

definition failing_marshal :: rpcerrors where
  "failing_marshal =
     demo_rpcerrors\<lparr>marshal_error := (\<lambda>rpcRes. Some (Err ''unsupported value''))\<rparr>"

definition nil_body_request :: Request where
  "nil_body_request = (anonymous_request [])\<lparr>Body := None\<rparr>"

definition unreadable_request :: Request where
  "unreadable_request = (anonymous_request [])\<lparr>Body := Some (Inl (Err ''unexpected EOF''))\<rparr>"

section \<open>Supporting lemmas\<close>

lemma exec_Nil [simp]: "exec [] s = s"
  by (simp add: exec_def)

lemma exec_Cons [simp]: "exec (stmt # stmts) s = exec stmts (stmt s)"
  by (simp add: exec_def)

lemmas stmt_defs =
  WriteHeader_def Write_def emit_def observeFailure_def observeSuccess_def
  AddJSONContentType_def

lemma GetAuthError_None_iff:
  "GetAuthError env user err = None \<longleftrightarrow> err = None \<and> user \<noteq> None"
  by (simp add: GetAuthError_def split: option.splits)

lemma GetAuthError_cases:
  "GetAuthError env user err = None
   \<or> GetAuthError env user err = Some AuthRequiredError
   \<or> (\<exists>e. GetAuthError env user err = Some (ForbiddenError e))"
  by (cases err; cases user) (simp_all add: GetAuthError_def)

text \<open>The writer after one \<^verbatim>\<open>Write\<close>: the bytes are appended, and a status is set.\<close>

lemma written_w_Write [simp]: "written (w_Write b w) = written w @ b"
  by (simp add: w_Write_def w_WriteHeader_def Let_def)

lemma wroteHeader_w_Write [simp]: "wroteHeader (w_Write b w)"
  by (simp add: w_Write_def w_WriteHeader_def Let_def)

lemma status_w_Write:
  "status (w_Write b w) = (if wroteHeader w then status w else StatusOK)"
  by (simp add: w_Write_def w_WriteHeader_def Let_def)

lemma Header_Set_fields [simp]:
  "wroteHeader (Header_Set k v w) = wroteHeader w"
  "status (Header_Set k v w) = status w"
  "written (Header_Set k v w) = written w"
  "sent_header (Header_Set k v w) = sent_header w"
  by (simp_all add: Header_Set_def)

lemma w_WriteHeader_fields [simp]:
  "wroteHeader (w_WriteHeader code w)"
  "written (w_WriteHeader code w) = written w"
  "status (w_WriteHeader code w) = (if wroteHeader w then status w else code)"
  by (simp_all add: w_WriteHeader_def)

lemma exec_emits [simp]: "exec (map emit evs) s = s\<lparr>events := events s @ evs\<rparr>"
  by (induction evs arbitrary: s) (simp_all add: emit_def)

lemma Handle_call_events:
  "\<exists>rest. events (snd (Handle_call env r body rpcReq userID sdkAddress s))
      = events s @ Handle_events env r body rpcReq userID sdkAddress @ rest"
  by (simp add: Handle_call_def Let_def stmt_defs
      split: prod.splits option.splits sum.splits)

lemma Handle_call_router:
  "router (snd (Handle_call env r body rpcReq userID sdkAddress s)) = router s"
  by (simp add: Handle_call_def Let_def stmt_defs
      split: prod.splits option.splits sum.splits)

text \<open>The handler up to line 114, for a request that is decoded and let through.\<close>

lemma Handle_reaches_call:
  assumes "Body r = Some (Inr body)"
    and "Unmarshal env body = Inr (Some rpcReq)"
    and "auth_FromRequest r = (user, err)"
    and "MethodRequiresWallet env (Method rpcReq) (Params rpcReq)
           \<longrightarrow> GetAuthError env user err = None"
    and "Handle_sdkAddress (router s) draw user = Some sdkAddress"
  shows "Handle env draw r s =
           Handle_call env r body rpcReq (Handle_userID env rpcReq user) sdkAddress
             (AddJSONContentType env s)"
  using assms
  by (auto simp add: Handle_def Handle_request_def Let_def AddJSONContentType_def)

lemma Handle_nil_request:
  assumes "Body r = Some (Inr body)" and "Unmarshal env body = Inr None"
  shows "Handle env draw r s = (Panicked, AddJSONContentType env s)"
  using assms by (simp add: Handle_def Let_def)

lemma Handle_call_observes_once:
  assumes "Handle_call env r body rpcReq userID sdkAddress s = (Returned, s')"
  shows "ProxyE2ECallDurations s' = ProxyE2ECallDurations s @ [(Method rpcReq, sdkAddress)] \<and>
         (ProxyE2ECallFailedDurations s' = ProxyE2ECallFailedDurations s
          \<or> (\<exists>kind. ProxyE2ECallFailedDurations s'
                = ProxyE2ECallFailedDurations s @ [(Method rpcReq, sdkAddress, kind)]))"
  using assms
  by (auto simp add: Handle_call_def Let_def stmt_defs
      split: prod.splits option.splits sum.splits if_splits)

lemma Handle_returned_observes_once:
  assumes "Handle env draw r s = (Returned, s')"
  shows "\<exists>method endpoint.
           ProxyE2ECallDurations s' = ProxyE2ECallDurations s @ [(method, endpoint)] \<and>
           (ProxyE2ECallFailedDurations s' = ProxyE2ECallFailedDurations s
            \<or> (\<exists>kind. ProxyE2ECallFailedDurations s'
                  = ProxyE2ECallFailedDurations s @ [(method, endpoint, kind)]))"
proof (cases "Body r")
  case None
  with assms show ?thesis
    by (auto simp add: Handle_def Let_def stmt_defs)
next
  case (Some rd)
  show ?thesis
  proof (cases rd)
    case (Inl e)
    with Some assms show ?thesis
      by (auto simp add: Handle_def Let_def stmt_defs)
  next
    case (Inr body)
    show ?thesis
    proof (cases "Unmarshal env body")
      case (Inl e)
      with Some \<open>rd = Inr body\<close> assms show ?thesis
        by (auto simp add: Handle_def Let_def stmt_defs)
    next
      case dec: (Inr p)
      show ?thesis
      proof (cases p)
        case None
        with Some \<open>rd = Inr body\<close> dec assms show ?thesis
          by (simp add: Handle_def Let_def)
      next
        case req: (Some rpcReq)
        have run: "Handle_request env draw r body rpcReq (AddJSONContentType env s)
                     = (Returned, s')"
          using Some \<open>rd = Inr body\<close> dec req assms by (simp add: Handle_def Let_def)
        obtain user err where au: "auth_FromRequest r = (user, err)"
          by (cases "auth_FromRequest r")
        show ?thesis
        proof (cases "MethodRequiresWallet env (Method rpcReq) (Params rpcReq)
                        \<and> GetAuthError env user err \<noteq> None")
          case True
          with run au show ?thesis
            by (auto simp add: Handle_request_def stmt_defs)
        next
          case False
          then have gate: "(if MethodRequiresWallet env (Method rpcReq) (Params rpcReq)
                      then GetAuthError env user err else None) = None"
            by auto
          from run au gate obtain sdkAddress where
            "Handle_call env r body rpcReq (Handle_userID env rpcReq user) sdkAddress
               (AddJSONContentType env s) = (Returned, s')"
            by (auto simp add: Handle_request_def Let_def AddJSONContentType_def
                split: option.splits)
          from Handle_call_observes_once [OF this] show ?thesis
            by (auto simp add: AddJSONContentType_def)
        qed
      qed
    qed
  qed
qed

lemma is_error_envelope_error_json: "is_error_envelope (render (error_json code msg))"
  unfolding is_error_envelope_def
  by (rule exI [of _ "error_json code msg"]) (simp add: error_json_def)

lemma is_error_envelope_response_json:
  "Error res \<noteq> None \<Longrightarrow> is_error_envelope (render (response_json (Some res)))"
  unfolding is_error_envelope_def
  by (rule exI [of _ "response_json (Some res)"])
     (auto simp add: response_json_def rpc_error_json_def)

text \<open>Bare text is not an error envelope: an envelope starts with a brace.\<close>

lemma error_envelope_starts_with_brace:
  "is_error_envelope b \<Longrightarrow> \<exists>rest. b = CHR ''{'' # rest"
  unfolding is_error_envelope_def
  by (elim exE conjE, rename_tac j, case_tac j) auto

lemma bare_text_is_no_envelope: "\<not> is_error_envelope ''authentication required''"
  using error_envelope_starts_with_brace [of "''authentication required''"] by auto

lemma rpcerrors_env_fields [simp]:
  "Unmarshal (rpcerrors_env p env) = Unmarshal env"
  "MethodRequiresWallet (rpcerrors_env p env) = MethodRequiresWallet env"
  "MethodAcceptsWallet (rpcerrors_env p env) = MethodAcceptsWallet env"
  "MethodWalletSend (rpcerrors_env p env) = MethodWalletSend env"
  "errors_Is (rpcerrors_env p env) = errors_Is env"
  "InstallHooks (rpcerrors_env p env) = InstallHooks env"
  "Call (rpcerrors_env p env) = Call env"
  "JSONContentType (rpcerrors_env p env) = JSONContentType env"
  by (simp_all add: rpcerrors_env_def)

lemma rpcerrors_env_encoders:
  "is_error_envelope (NewJSONParseError_JSON (rpcerrors_env p env) e)"
  "is_error_envelope (ErrorToJSON (rpcerrors_env p env) e)"
  "is_error_envelope (ToJSON (rpcerrors_env p env) e)"
  "is_error_envelope (NewInternalError_JSON (rpcerrors_env p env) e)"
  by (simp_all add: rpcerrors_env_def is_error_envelope_error_json)

lemma rpcerrors_env_serialized:
  assumes "JSONRPCSerialize (rpcerrors_env p env) (Some res) = Inr b" and "Error res \<noteq> None"
  shows "is_error_envelope b"
  using assms
  by (auto simp add: rpcerrors_env_def is_error_envelope_response_json split: option.splits)

lemma answers_with_written:
  assumes "answers_with env s code b run" and "written (rw s) = []"
  shows "written (rw (snd run)) = b \<and> is_error_envelope b"
  using assms by (cases code) (simp_all add: answers_with_def)

text \<open>Of \<open>m * n\<close> consecutive draws, \<open>m\<close> fall on each of the \<open>n\<close> positions.\<close>

lemma card_draws_at_position:
  assumes "i < n"
  shows "card {d. d < m * n \<and> d mod n = i} = m"
proof -
  have "{d. d < m * n \<and> d mod n = i} = (\<lambda>k. k * n + i) ` {..<m}"
  proof (intro set_eqI iffI)
    fix d
    assume "d \<in> {d. d < m * n \<and> d mod n = i}"
    then have d: "d < m * n" "d mod n = i"
      by simp_all
    have "d div n < m"
      using d(1) assms by (simp add: less_mult_imp_div_less)
    moreover have "d = (d div n) * n + i"
      using d(2) by (metis div_mult_mod_eq)
    ultimately show "d \<in> (\<lambda>k. k * n + i) ` {..<m}"
      by blast
  next
    fix d
    assume "d \<in> (\<lambda>k. k * n + i) ` {..<m}"
    then obtain k where k: "k < m" "d = k * n + i"
      by auto
    have "k * n + i < k * n + n"
      using assms by simp
    also have "\<dots> = Suc k * n"
      by simp
    also have "\<dots> \<le> m * n"
      using k(1) by (intro mult_le_mono1) simp
    finally have "d < m * n"
      using k(2) by simp
    moreover have "d mod n = i"
      using k(2) assms by simp
    ultimately show "d \<in> {d. d < m * n \<and> d mod n = i}"
      by simp
  qed
  moreover have "inj_on (\<lambda>k. k * n + i) {..<m}"
    using assms by (auto simp add: inj_on_def)
  ultimately show ?thesis
    by (simp add: card_image)
qed

section \<open>GetAuthError\<close>

text \<open>
  Claim C5. \<^verbatim>\<open>GetAuthError\<close> sorts an outcome of the user resolution into three cases.
  A resolved user with no error gives no error. An error that \<^verbatim>\<open>errors.Is\<close> finds to be
  \<^verbatim>\<open>auth.ErrNoAuthInfo\<close> gives the auth-required error. Any other error gives the
  forbidden error that wraps it, and no user with no error, a nil error not being
  \<^verbatim>\<open>auth.ErrNoAuthInfo\<close>, gives the forbidden error "must authenticate".
\<close>

theorem GetAuthError_three_cases:
  "(err = None \<and> user \<noteq> None \<longrightarrow> GetAuthError env user err = None) \<and>
   (err \<noteq> None \<and> errors_Is env err (Some ErrNoAuthInfo)
      \<longrightarrow> GetAuthError env user err = Some AuthRequiredError) \<and>
   (err = Some e \<and> \<not> errors_Is env err (Some ErrNoAuthInfo)
      \<longrightarrow> GetAuthError env user err = Some (ForbiddenError e)) \<and>
   (user = None \<and> err = None \<and> \<not> errors_Is env err (Some ErrNoAuthInfo)
      \<longrightarrow> GetAuthError env user err = Some (ForbiddenError (Err ''must authenticate'')))"
  by (cases err; cases user) (simp_all add: GetAuthError_def)

theorem GetAuthError_three_cases_witness:
  "GetAuthError demo_env (Some \<lparr>ID = 7\<rparr>) None = None \<and>
   GetAuthError demo_env None (Some ErrNoAuthInfo) = Some AuthRequiredError \<and>
   GetAuthError demo_env None (Some (Err ''token expired''))
     = Some (ForbiddenError (Err ''token expired'')) \<and>
   GetAuthError demo_env None None = Some (ForbiddenError (Err ''must authenticate''))"
  using GetAuthError_three_cases [of None "Some \<lparr>ID = 7\<rparr>" demo_env]
    GetAuthError_three_cases [of "Some ErrNoAuthInfo" None demo_env]
    GetAuthError_three_cases [of "Some (Err ''token expired'')" None demo_env "Err ''token expired''"]
    GetAuthError_three_cases [of None None demo_env]
  by (simp add: demo_env_def)

text \<open>
  Claim C9. \<^verbatim>\<open>GetAuthError\<close> returns nil exactly when the error is nil and the user is
  not. For every other input it returns the auth-required error or a forbidden error, so the
  last statement of the function, which returns "unknown auth error", is never reached.
\<close>

theorem GetAuthError_fallback_unreachable:
  "(GetAuthError env user err = None \<longleftrightarrow> err = None \<and> user \<noteq> None) \<and>
   (\<not> (err = None \<and> user \<noteq> None)
      \<longrightarrow> GetAuthError env user err = Some AuthRequiredError
          \<or> (\<exists>e. GetAuthError env user err = Some (ForbiddenError e))) \<and>
   GetAuthError env user err \<noteq> Some (Err ''unknown auth error'')"
  by (cases err; cases user) (simp_all add: GetAuthError_def)

theorem GetAuthError_fallback_unreachable_witness:
  "GetAuthError demo_env None None \<noteq> None \<and>
   (GetAuthError demo_env None None = Some AuthRequiredError
      \<or> (\<exists>e. GetAuthError demo_env None None = Some (ForbiddenError e))) \<and>
   GetAuthError demo_env None None \<noteq> Some (Err ''unknown auth error'')"
  using GetAuthError_fallback_unreachable [of demo_env None None]
  by simp

section \<open>HandleCORS\<close>

text \<open>
  Claim C8. Whatever the request, \<^verbatim>\<open>HandleCORS\<close> on a fresh response writer sends
  status 200 with an empty body and the three CORS headers, among them
  \<^verbatim>\<open>Access-Control-Allow-Origin\<close> with the wildcard. The function reads nothing of the
  request and touches only the response writer: no part of the JSON-RPC path is involved.
\<close>

theorem HandleCORS_preflight:
  "wroteHeader (HandleCORS env (new_writer h) r) \<and>
   status (HandleCORS env (new_writer h) r) = StatusOK \<and>
   written (HandleCORS env (new_writer h) r) = [] \<and>
   sent_header (HandleCORS env (new_writer h) r) ''Access-Control-Allow-Origin'' = Some [''*''] \<and>
   sent_header (HandleCORS env (new_writer h) r) ''Access-Control-Max-Age'' = Some [''7200''] \<and>
   sent_header (HandleCORS env (new_writer h) r) ''Access-Control-Allow-Headers''
     = Some [TokenHeader env @ '', Origin, X-Requested-With, Content-Type, Accept''] \<and>
   HandleCORS env w r = HandleCORS env w r'"
  by (simp add: HandleCORS_def new_writer_def Header_Set_def w_WriteHeader_def)

section \<open>Handle\<close>

text \<open>
  Claim C1. A request is decoded to a method that requires a wallet, and the user resolution
  gives an error or no user. Then \<^verbatim>\<open>GetAuthError\<close> gives an error, the handler writes
  that error as its only response, observes the failure under the kind auth, and returns.
  No event is recorded: no caller is constructed, no hook is registered and the backend is
  not called.
\<close>

theorem Handle_auth_error_is_terminal:
  assumes "Body r = Some (Inr body)"
    and "Unmarshal env body = Inr (Some rpcReq)"
    and "MethodRequiresWallet env (Method rpcReq) (Params rpcReq)"
    and "auth_FromRequest r = (user, err)"
    and "err \<noteq> None \<or> user = None"
  shows "\<exists>authErr. GetAuthError env user err = Some authErr \<and>
           Handle env draw r s =
             (Returned,
              s\<lparr>rw := w_Write (ErrorToJSON env authErr)
                        (Header_Set ''Content-Type'' (JSONContentType env) (rw s)),
                ProxyE2ECallDurations := ProxyE2ECallDurations s @ [(Method rpcReq, '''')],
                ProxyE2ECallFailedDurations :=
                  ProxyE2ECallFailedDurations s @ [(Method rpcReq, '''', FailureKindAuth)]\<rparr>) \<and>
           events (snd (Handle env draw r s)) = events s"
proof -
  from assms(5) have "GetAuthError env user err \<noteq> None"
    by (auto simp add: GetAuthError_None_iff)
  then obtain authErr where ae: "GetAuthError env user err = Some authErr"
    by auto
  with assms(1-4) show ?thesis
    by (simp add: Handle_def Handle_request_def Let_def stmt_defs)
qed

theorem Handle_auth_error_is_terminal_witness:
  "fst (Handle demo_env 0 (anonymous_request wallet_send_body) demo_world) = Returned \<and>
   events (snd (Handle demo_env 0 (anonymous_request wallet_send_body) demo_world)) = [] \<and>
   written (rw (snd (Handle demo_env 0 (anonymous_request wallet_send_body) demo_world)))
     = proxy_error_bytes \<and>
   ProxyE2ECallFailedDurations
     (snd (Handle demo_env 0 (anonymous_request wallet_send_body) demo_world))
     = [(''wallet_send'', '''', FailureKindAuth)]"
proof -
  have h1: "Body (anonymous_request wallet_send_body) = Some (Inr wallet_send_body)"
    by (simp add: anonymous_request_def)
  have h2: "Unmarshal demo_env wallet_send_body = Inr (Some wallet_send_request)"
    by (simp add: demo_env_def demo_Unmarshal_def wallet_send_body_def)
  have h3: "MethodRequiresWallet demo_env (Method wallet_send_request)
              (Params wallet_send_request)"
    by (simp add: demo_env_def wallet_send_request_def)
  have h4: "auth_FromRequest (anonymous_request wallet_send_body) = (None, Some ErrNoAuthInfo)"
    by (simp add: anonymous_request_def)
  have h5: "Some ErrNoAuthInfo \<noteq> None \<or> (None :: User option) = None"
    by simp
  from Handle_auth_error_is_terminal [OF h1 h2 h3 h4 h5, of 0 demo_world]
  show ?thesis
    by (auto simp add: demo_env_def demo_world_def new_writer_def wallet_send_request_def)
qed

text \<open>
  Claim C3 says that every request gives exactly one overall duration observation. A run
  that returns does give exactly one, and one more in the failure histogram on a failure
  path, as the lemma \<open>Handle_returned_observes_once\<close> shows. A request whose body is the
  JSON literal \<^verbatim>\<open>null\<close> is decoded without an error to a nil request. The handler then
  panics on line 92, before any observation: both histograms stay empty and nothing is
  written.
\<close>

theorem Handle_null_body_panics:
  "fst (Handle demo_env 0 (anonymous_request ''null'') demo_world) = Panicked \<and>
   ProxyE2ECallDurations (snd (Handle demo_env 0 (anonymous_request ''null'') demo_world)) = [] \<and>
   ProxyE2ECallFailedDurations
     (snd (Handle demo_env 0 (anonymous_request ''null'') demo_world)) = [] \<and>
   written (rw (snd (Handle demo_env 0 (anonymous_request ''null'') demo_world))) = [] \<and>
   \<not> wroteHeader (rw (snd (Handle demo_env 0 (anonymous_request ''null'') demo_world)))"
  by (simp add: Handle_def Let_def anonymous_request_def demo_env_def demo_Unmarshal_def
      demo_world_def new_writer_def AddJSONContentType_def Header_Set_def)

text \<open>
  Claim C4. The request is decoded and let through, the backend call returns a response and
  no error, the response carries an error, and its serialization succeeds. Then the handler
  writes the serialized response and nothing else, observes the call under the failure kind
  RPC, and returns. No error is reported to Sentry and none of the error encoders of the
  proxy is used.
\<close>

theorem Handle_rpc_error_passthrough:
  assumes "Body r = Some (Inr body)"
    and "Unmarshal env body = Inr (Some rpcReq)"
    and "auth_FromRequest r = (user, err)"
    and "MethodRequiresWallet env (Method rpcReq) (Params rpcReq)
           \<longrightarrow> GetAuthError env user err = None"
    and "Handle_sdkAddress (router s) draw user = Some sdkAddress"
    and "Call env (Handle_caller env r body (Handle_userID env rpcReq user) sdkAddress) rpcReq
           = (Some res, None)"
    and "Error res \<noteq> None"
    and "JSONRPCSerialize env (Some res) = Inr serialized"
  shows "Handle env draw r s =
           (Returned,
            s\<lparr>rw := w_Write serialized
                      (Header_Set ''Content-Type'' (JSONContentType env) (rw s)),
              ProxyE2ECallDurations := ProxyE2ECallDurations s @ [(Method rpcReq, sdkAddress)],
              ProxyE2ECallFailedDurations :=
                ProxyE2ECallFailedDurations s @ [(Method rpcReq, sdkAddress, FailureKindRPC)],
              events := events s @
                Handle_events env r body rpcReq (Handle_userID env rpcReq user) sdkAddress\<rparr>) \<and>
         written (rw (snd (Handle env draw r s))) = written (rw s) @ serialized"
proof -
  have "Handle env draw r s =
          Handle_call env r body rpcReq (Handle_userID env rpcReq user) sdkAddress
            (AddJSONContentType env s)"
    using assms(1-5) by (rule Handle_reaches_call)
  with assms(6-8) show ?thesis
    by (simp add: Handle_call_def Let_def stmt_defs)
qed

theorem Handle_rpc_error_passthrough_witness:
  "fst (Handle demo_env 0 (user_request 7 wallet_send_body) demo_world) = Returned \<and>
   written (rw (snd (Handle demo_env 0 (user_request 7 wallet_send_body) demo_world)))
     = error_bytes \<and>
   status (rw (snd (Handle demo_env 0 (user_request 7 wallet_send_body) demo_world)))
     = StatusOK \<and>
   ProxyE2ECallFailedDurations
     (snd (Handle demo_env 0 (user_request 7 wallet_send_body) demo_world))
     = [(''wallet_send'', ''http://lbrynet2:5279'', FailureKindRPC)]"
proof -
  have h1: "Body (user_request 7 wallet_send_body) = Some (Inr wallet_send_body)"
    by (simp add: user_request_def)
  have h2: "Unmarshal demo_env wallet_send_body = Inr (Some wallet_send_request)"
    by (simp add: demo_env_def demo_Unmarshal_def wallet_send_body_def)
  have h3: "auth_FromRequest (user_request 7 wallet_send_body) = (Some \<lparr>ID = 7\<rparr>, None)"
    by (simp add: user_request_def)
  have h4: "MethodRequiresWallet demo_env (Method wallet_send_request)
              (Params wallet_send_request)
            \<longrightarrow> GetAuthError demo_env (Some \<lparr>ID = 7\<rparr>) None = None"
    by (simp add: GetAuthError_def)
  have h5: "Handle_sdkAddress (router demo_world) 0 (Some \<lparr>ID = 7\<rparr>)
              = Some ''http://lbrynet2:5279''"
    by (simp add: Handle_sdkAddress_def GetSDKAddress_def demo_world_def demo_router_def)
  have h6: "Call demo_env
              (Handle_caller demo_env (user_request 7 wallet_send_body) wallet_send_body
                 (Handle_userID demo_env wallet_send_request (Some \<lparr>ID = 7\<rparr>))
                 ''http://lbrynet2:5279'')
              wallet_send_request = (Some insufficient_funds, None)"
    by (simp add: demo_env_def demo_Call_def wallet_send_request_def)
  have h7: "Error insufficient_funds \<noteq> None"
    by (simp add: insufficient_funds_def)
  have h8: "JSONRPCSerialize demo_env (Some insufficient_funds) = Inr error_bytes"
    by (simp add: demo_env_def demo_JSONRPCSerialize_def insufficient_funds_def)
  from Handle_rpc_error_passthrough [OF h1 h2 h3 h4 h5 h6 h7 h8]
  show ?thesis
    by (simp add: demo_world_def new_writer_def wallet_send_request_def status_w_Write)
qed

text \<open>
  Claim C6. The encoders and the serializer are the modelled ones. Each of the seven causes
  of failure makes the handler return after exactly one write of a body, which is a
  well-formed error envelope: the parse error for a nil body and for a body that cannot be
  read, both with status 400; the parse error for a body that is not JSON; the auth error
  for a method that requires a wallet; the error of the backend call; the internal error
  for a response that cannot be serialized; and the serialized response of the backend when
  it carries an error. Apart from the two with status 400, the body is written with the
  status 200 that the first write gives a fresh response writer.
\<close>

theorem Handle_failure_writes_error_envelope:
  assumes env: "env = rpcerrors_env p env0"
  shows
    "(Body r = None \<longrightarrow>
        answers_with env s (Some StatusBadRequest)
          (NewJSONParseError_JSON env (Err ''empty request body'')) (Handle env draw r s)) \<and>
     (Body r = Some (Inl readErr) \<longrightarrow>
        answers_with env s (Some StatusBadRequest)
          (NewJSONParseError_JSON env (Err ''error reading request body''))
          (Handle env draw r s)) \<and>
     (Body r = Some (Inr body) \<and> Unmarshal env body = Inl jsonErr \<longrightarrow>
        answers_with env s None (NewJSONParseError_JSON env jsonErr) (Handle env draw r s)) \<and>
     (Body r = Some (Inr body) \<and> Unmarshal env body = Inr (Some rpcReq) \<and>
      auth_FromRequest r = (user, err) \<and>
      MethodRequiresWallet env (Method rpcReq) (Params rpcReq) \<and>
      GetAuthError env user err = Some authErr \<longrightarrow>
        answers_with env s None (ErrorToJSON env authErr) (Handle env draw r s)) \<and>
     (Body r = Some (Inr body) \<and> Unmarshal env body = Inr (Some rpcReq) \<and>
      auth_FromRequest r = (user, err) \<and>
      (MethodRequiresWallet env (Method rpcReq) (Params rpcReq)
         \<longrightarrow> GetAuthError env user err = None) \<and>
      Handle_sdkAddress (router s) draw user = Some sdkAddress \<and>
      Call env (Handle_caller env r body (Handle_userID env rpcReq user) sdkAddress) rpcReq
        = (rpcRes, callErr) \<longrightarrow>
        (callErr = Some netErr \<longrightarrow>
           answers_with env s None (ToJSON env netErr) (Handle env draw r s)) \<and>
        (callErr = None \<and> JSONRPCSerialize env rpcRes = Inl jsonErr \<longrightarrow>
           answers_with env s None (NewInternalError_JSON env jsonErr)
             (Handle env draw r s)) \<and>
        (callErr = None \<and> rpcRes = Some res \<and> Error res \<noteq> None \<and>
         JSONRPCSerialize env rpcRes = Inr serialized \<longrightarrow>
           answers_with env s None serialized (Handle env draw r s)))"
proof -
  have run: "Handle env draw r s =
      Handle_call env r body rpcReq (Handle_userID env rpcReq user) sdkAddress
        (AddJSONContentType env s)"
    if "Body r = Some (Inr body) \<and> Unmarshal env body = Inr (Some rpcReq) \<and>
      auth_FromRequest r = (user, err) \<and>
      (MethodRequiresWallet env (Method rpcReq) (Params rpcReq)
         \<longrightarrow> GetAuthError env user err = None) \<and>
      Handle_sdkAddress (router s) draw user = Some sdkAddress \<and>
      Call env (Handle_caller env r body (Handle_userID env rpcReq user) sdkAddress) rpcReq
        = (rpcRes, callErr)"
    using that by (intro Handle_reaches_call) blast+
  show ?thesis
  proof (intro conjI impI)
    assume "Body r = None"
    then show "answers_with env s (Some StatusBadRequest)
        (NewJSONParseError_JSON env (Err ''empty request body'')) (Handle env draw r s)"
      by (simp add: answers_with_def Handle_def Let_def stmt_defs env rpcerrors_env_encoders)
  next
    assume "Body r = Some (Inl readErr)"
    then show "answers_with env s (Some StatusBadRequest)
        (NewJSONParseError_JSON env (Err ''error reading request body''))
        (Handle env draw r s)"
      by (simp add: answers_with_def Handle_def Let_def stmt_defs env rpcerrors_env_encoders)
  next
    assume "Body r = Some (Inr body) \<and> Unmarshal env body = Inl jsonErr"
    then show "answers_with env s None (NewJSONParseError_JSON env jsonErr)
        (Handle env draw r s)"
      by (simp add: answers_with_def Handle_def Let_def stmt_defs env rpcerrors_env_encoders)
  next
    assume "Body r = Some (Inr body) \<and> Unmarshal env body = Inr (Some rpcReq) \<and>
        auth_FromRequest r = (user, err) \<and>
        MethodRequiresWallet env (Method rpcReq) (Params rpcReq) \<and>
        GetAuthError env user err = Some authErr"
    then show "answers_with env s None (ErrorToJSON env authErr) (Handle env draw r s)"
      by (simp add: answers_with_def Handle_def Handle_request_def Let_def stmt_defs env
          rpcerrors_env_encoders)
  next
    assume path: "Body r = Some (Inr body) \<and> Unmarshal env body = Inr (Some rpcReq) \<and>
        auth_FromRequest r = (user, err) \<and>
        (MethodRequiresWallet env (Method rpcReq) (Params rpcReq)
           \<longrightarrow> GetAuthError env user err = None) \<and>
        Handle_sdkAddress (router s) draw user = Some sdkAddress \<and>
        Call env (Handle_caller env r body (Handle_userID env rpcReq user) sdkAddress) rpcReq
          = (rpcRes, callErr)"
      and "callErr = Some netErr"
    with run [OF path] show "answers_with env s None (ToJSON env netErr) (Handle env draw r s)"
      by (simp add: answers_with_def Handle_call_def Let_def stmt_defs env
          rpcerrors_env_encoders)
  next
    assume path: "Body r = Some (Inr body) \<and> Unmarshal env body = Inr (Some rpcReq) \<and>
        auth_FromRequest r = (user, err) \<and>
        (MethodRequiresWallet env (Method rpcReq) (Params rpcReq)
           \<longrightarrow> GetAuthError env user err = None) \<and>
        Handle_sdkAddress (router s) draw user = Some sdkAddress \<and>
        Call env (Handle_caller env r body (Handle_userID env rpcReq user) sdkAddress) rpcReq
          = (rpcRes, callErr)"
      and "callErr = None \<and> JSONRPCSerialize env rpcRes = Inl jsonErr"
    with run [OF path] show "answers_with env s None (NewInternalError_JSON env jsonErr)
        (Handle env draw r s)"
      by (simp add: answers_with_def Handle_call_def Let_def stmt_defs env
          rpcerrors_env_encoders)
  next
    assume path: "Body r = Some (Inr body) \<and> Unmarshal env body = Inr (Some rpcReq) \<and>
        auth_FromRequest r = (user, err) \<and>
        (MethodRequiresWallet env (Method rpcReq) (Params rpcReq)
           \<longrightarrow> GetAuthError env user err = None) \<and>
        Handle_sdkAddress (router s) draw user = Some sdkAddress \<and>
        Call env (Handle_caller env r body (Handle_userID env rpcReq user) sdkAddress) rpcReq
          = (rpcRes, callErr)"
      and rpc: "callErr = None \<and> rpcRes = Some res \<and> Error res \<noteq> None \<and>
        JSONRPCSerialize env rpcRes = Inr serialized"
    from rpc have "is_error_envelope serialized"
      using rpcerrors_env_serialized [of p env0 res serialized] unfolding env by blast
    with rpc path run [OF path]
    show "answers_with env s None serialized (Handle env draw r s)"
      by (auto simp add: answers_with_def Handle_call_def Let_def stmt_defs)
  qed
qed

theorem Handle_failure_writes_error_envelope_witness:
  "is_error_envelope
     (written (rw (snd (Handle (rpcerrors_env demo_rpcerrors demo_env) 0
        nil_body_request demo_world)))) \<and>
   is_error_envelope
     (written (rw (snd (Handle (rpcerrors_env demo_rpcerrors demo_env) 0
        unreadable_request demo_world)))) \<and>
   is_error_envelope
     (written (rw (snd (Handle (rpcerrors_env demo_rpcerrors demo_env) 0
        (anonymous_request ''{'') demo_world)))) \<and>
   is_error_envelope
     (written (rw (snd (Handle (rpcerrors_env demo_rpcerrors demo_env) 0
        (anonymous_request wallet_send_body) demo_world)))) \<and>
   is_error_envelope
     (written (rw (snd (Handle (rpcerrors_env demo_rpcerrors unreachable_env) 0
        (anonymous_request status_body) demo_world)))) \<and>
   is_error_envelope
     (written (rw (snd (Handle (rpcerrors_env failing_marshal demo_env) 0
        (anonymous_request status_body) demo_world)))) \<and>
   is_error_envelope
     (written (rw (snd (Handle (rpcerrors_env demo_rpcerrors demo_env) 0
        (user_request 7 wallet_send_body) demo_world))))"
proof -
  note T = Handle_failure_writes_error_envelope [OF refl]
  have fresh: "written (rw demo_world) = []"
    by (simp add: demo_world_def new_writer_def)
  have dec_w: "Unmarshal demo_env wallet_send_body = Inr (Some wallet_send_request)"
    by (simp add: demo_env_def demo_Unmarshal_def wallet_send_body_def)
  have dec_s: "Unmarshal demo_env status_body = Inr (Some status_request)"
    by (simp add: demo_env_def demo_Unmarshal_def status_body_def wallet_send_body_def)
  have dec_s': "Unmarshal unreachable_env status_body = Inr (Some status_request)"
    using dec_s by (simp add: unreachable_env_def)
  have free: "\<not> MethodRequiresWallet demo_env (Method status_request) (Params status_request)"
    "\<not> MethodRequiresWallet unreachable_env (Method status_request) (Params status_request)"
    by (simp_all add: unreachable_env_def demo_env_def status_request_def)
  have anon_addr: "Handle_sdkAddress (router demo_world) 0 None = Some ''http://lbrynet1:5279''"
    by (simp add: Handle_sdkAddress_def GetSDKAddress_def RandomServer_def demo_world_def
        demo_router_def)
  have user_addr: "Handle_sdkAddress (router demo_world) 0 (Some \<lparr>ID = 7\<rparr>)
      = Some ''http://lbrynet2:5279''"
    by (simp add: Handle_sdkAddress_def GetSDKAddress_def demo_world_def demo_router_def)
  have c1: "answers_with (rpcerrors_env demo_rpcerrors demo_env) demo_world
      (Some StatusBadRequest)
      (NewJSONParseError_JSON (rpcerrors_env demo_rpcerrors demo_env)
         (Err ''empty request body''))
      (Handle (rpcerrors_env demo_rpcerrors demo_env) 0 nil_body_request demo_world)"
    by (rule T [THEN conjunct1, rule_format]) (simp add: nil_body_request_def)
  have c2: "answers_with (rpcerrors_env demo_rpcerrors demo_env) demo_world
      (Some StatusBadRequest)
      (NewJSONParseError_JSON (rpcerrors_env demo_rpcerrors demo_env)
         (Err ''error reading request body''))
      (Handle (rpcerrors_env demo_rpcerrors demo_env) 0 unreadable_request demo_world)"
    by (rule T [THEN conjunct2, THEN conjunct1, rule_format])
       (simp add: unreadable_request_def)
  have c3: "answers_with (rpcerrors_env demo_rpcerrors demo_env) demo_world None
      (NewJSONParseError_JSON (rpcerrors_env demo_rpcerrors demo_env)
         (Err ''invalid character''))
      (Handle (rpcerrors_env demo_rpcerrors demo_env) 0 (anonymous_request ''{'') demo_world)"
    by (rule T [THEN conjunct2, THEN conjunct2, THEN conjunct1, rule_format,
          where body = "''{''"])
       (simp add: anonymous_request_def demo_env_def demo_Unmarshal_def wallet_send_body_def
          status_body_def)
  have c4: "answers_with (rpcerrors_env demo_rpcerrors demo_env) demo_world None
      (ErrorToJSON (rpcerrors_env demo_rpcerrors demo_env) AuthRequiredError)
      (Handle (rpcerrors_env demo_rpcerrors demo_env) 0 (anonymous_request wallet_send_body)
         demo_world)"
    by (rule T [THEN conjunct2, THEN conjunct2, THEN conjunct2, THEN conjunct1, rule_format,
          where body = wallet_send_body and rpcReq = wallet_send_request and user = None
            and err = "Some ErrNoAuthInfo"])
       (simp add: dec_w anonymous_request_def GetAuthError_def,
        simp add: demo_env_def wallet_send_request_def)
  note T5 = T [THEN conjunct2, THEN conjunct2, THEN conjunct2, THEN conjunct2, rule_format]
  have c5: "answers_with (rpcerrors_env demo_rpcerrors unreachable_env) demo_world None
      (ToJSON (rpcerrors_env demo_rpcerrors unreachable_env) (Err ''connection refused''))
      (Handle (rpcerrors_env demo_rpcerrors unreachable_env) 0
         (anonymous_request status_body) demo_world)"
    by (rule T5 [THEN conjunct1, rule_format,
          where body = status_body and rpcReq = status_request and user = None
            and err = "Some ErrNoAuthInfo" and sdkAddress = "''http://lbrynet1:5279''"
            and rpcRes = None and callErr = "Some (Err ''connection refused'')"])
       (simp_all add: dec_s' free anon_addr anonymous_request_def, 
        simp add: unreachable_env_def)
  have c6: "answers_with (rpcerrors_env failing_marshal demo_env) demo_world None
      (NewInternalError_JSON (rpcerrors_env failing_marshal demo_env)
         (Err ''unsupported value''))
      (Handle (rpcerrors_env failing_marshal demo_env) 0
         (anonymous_request status_body) demo_world)"
    by (rule T5 [THEN conjunct2, THEN conjunct1, rule_format,
          where body = status_body and rpcReq = status_request and user = None
            and err = "Some ErrNoAuthInfo" and sdkAddress = "''http://lbrynet1:5279''"
            and rpcRes = "Some status_ok" and callErr = None])
       (simp_all add: dec_s free anon_addr anonymous_request_def,
        simp add: demo_env_def demo_Call_def status_request_def,
        simp add: rpcerrors_env_def failing_marshal_def)
  have c7: "answers_with (rpcerrors_env demo_rpcerrors demo_env) demo_world None
      (render (response_json (Some insufficient_funds)))
      (Handle (rpcerrors_env demo_rpcerrors demo_env) 0
         (user_request 7 wallet_send_body) demo_world)"
    by (rule T5 [THEN conjunct2, THEN conjunct2, rule_format,
          where body = wallet_send_body and rpcReq = wallet_send_request
            and user = "Some \<lparr>ID = 7\<rparr>" and err = None
            and sdkAddress = "''http://lbrynet2:5279''"
            and rpcRes = "Some insufficient_funds" and callErr = None
            and res = insufficient_funds])
       (simp_all add: dec_w user_addr user_request_def GetAuthError_def,
        simp add: demo_env_def demo_Call_def wallet_send_request_def,
        simp add: insufficient_funds_def,
        simp add: rpcerrors_env_def demo_rpcerrors_def)
  from answers_with_written [OF c1 fresh] answers_with_written [OF c2 fresh]
    answers_with_written [OF c3 fresh] answers_with_written [OF c4 fresh]
    answers_with_written [OF c5 fresh] answers_with_written [OF c6 fresh]
    answers_with_written [OF c7 fresh]
  show ?thesis
    by simp
qed

text \<open>
  Claim C7. The request is decoded and let through, and its user has no sticky backend:
  \<^verbatim>\<open>GetSDKAddress\<close> gives the empty string, as it does for every anonymous request. The
  pool of the router is not empty. Then the caller is constructed with the address of the
  server at position \<open>draw mod n\<close> of the \<open>n\<close> servers of the pool, a member of the pool.
  The choice is uniform in the draw: when the addresses of the pool are distinct, each
  server of the pool is the one chosen for exactly \<open>m\<close> of the draws below \<open>m * n\<close>. The
  router, with its bindings, is left as it was.
\<close>

theorem Handle_random_backend:
  assumes "Body r = Some (Inr body)"
    and "Unmarshal env body = Inr (Some rpcReq)"
    and "auth_FromRequest r = (user, err)"
    and "MethodRequiresWallet env (Method rpcReq) (Params rpcReq)
           \<longrightarrow> GetAuthError env user err = None"
    and "GetSDKAddress (router s) user = ''''"
    and "servers (router s) \<noteq> []"
    and "userID = (if MethodAcceptsWallet env (Method rpcReq) \<and> user \<noteq> None
                   then ID (the user) else 0)"
  shows "(\<exists>rest. events (snd (Handle env draw r s))
            = events s @
              EvNewCaller
                (Address (servers (router s) ! (draw mod length (servers (router s)))))
                userID # rest) \<and>
         servers (router s) ! (draw mod length (servers (router s)))
           \<in> set (servers (router s)) \<and>
         (distinct (map Address (servers (router s))) \<longrightarrow>
            (\<forall>i < length (servers (router s)). \<forall>m.
               card {d. d < m * length (servers (router s)) \<and>
                        (\<exists>rest. events (snd (Handle env d r s))
                           = events s @
                             EvNewCaller (Address (servers (router s) ! i)) userID # rest)}
                 = m)) \<and>
         router (snd (Handle env draw r s)) = router s \<and>
         GetSDKAddress (router s) None = ''''"
proof -
  let ?pool = "servers (router s)"
  let ?n = "length ?pool"
  have uid: "userID = Handle_userID env rpcReq user"
    using assms(7) by (simp add: Handle_userID_def)
  have addr: "Handle_sdkAddress (router s) d user = Some (Address (?pool ! (d mod ?n)))" for d
    using assms(5,6) by (simp add: Handle_sdkAddress_def RandomServer_def)
  have run: "Handle env d r s =
      Handle_call env r body rpcReq userID (Address (?pool ! (d mod ?n)))
        (AddJSONContentType env s)" for d
    unfolding uid using assms(1-4) addr by (rule Handle_reaches_call)
  have ev: "\<exists>rest. events (snd (Handle env d r s))
      = events s @ EvNewCaller (Address (?pool ! (d mod ?n))) userID # rest" for d
    using Handle_call_events [of env r body rpcReq userID "Address (?pool ! (d mod ?n))"
        "AddJSONContentType env s"]
    by (auto simp add: run Handle_events_def AddJSONContentType_def)
  have mem: "?pool ! (draw mod ?n) \<in> set ?pool"
    using assms(6) by simp
  have count: "card {d. d < m * ?n \<and>
      (\<exists>rest. events (snd (Handle env d r s))
         = events s @ EvNewCaller (Address (?pool ! i)) userID # rest)} = m"
    if dist: "distinct (map Address ?pool)" and i: "i < ?n" for i m
  proof -
    have pos: "Address (?pool ! (d mod ?n)) = Address (?pool ! i) \<longleftrightarrow> d mod ?n = i" for d
    proof -
      have lt: "d mod ?n < ?n"
        using assms(6) by simp
      have "map Address ?pool ! (d mod ?n) = map Address ?pool ! i \<longleftrightarrow> d mod ?n = i"
        by (rule nth_eq_iff_index_eq [OF dist]) (simp_all add: lt i)
      moreover have "map Address ?pool ! (d mod ?n) = Address (?pool ! (d mod ?n))"
        using lt by (rule nth_map)
      moreover have "map Address ?pool ! i = Address (?pool ! i)"
        using i by (rule nth_map)
      ultimately show ?thesis
        by simp
    qed
    have "(\<exists>rest. events (snd (Handle env d r s))
        = events s @ EvNewCaller (Address (?pool ! i)) userID # rest) \<longleftrightarrow> d mod ?n = i" for d
      using ev [of d] pos [of d] by auto
    then show ?thesis
      using card_draws_at_position [OF i, of m] by simp
  qed
  have rt: "router (snd (Handle env draw r s)) = router s"
    using Handle_call_router [of env r body rpcReq userID
        "Address (?pool ! (draw mod ?n))" "AddJSONContentType env s"]
    by (simp add: run AddJSONContentType_def)
  have anon: "GetSDKAddress (router s) None = ''''"
    by (simp add: GetSDKAddress_def)
  from ev [of draw] mem count rt anon show ?thesis
    by blast
qed

theorem Handle_random_backend_witness:
  "(\<exists>rest. events (snd (Handle demo_env 5 (anonymous_request status_body) demo_world))
      = EvNewCaller ''http://lbrynet2:5279'' 0 # rest) \<and>
   card {d. d < 3 * 2 \<and>
            (\<exists>rest. events (snd (Handle demo_env d (anonymous_request status_body) demo_world))
               = EvNewCaller ''http://lbrynet1:5279'' 0 # rest)} = 3"
proof -
  have h1: "Body (anonymous_request status_body) = Some (Inr status_body)"
    by (simp add: anonymous_request_def)
  have h2: "Unmarshal demo_env status_body = Inr (Some status_request)"
    by (simp add: demo_env_def demo_Unmarshal_def status_body_def wallet_send_body_def)
  have h3: "auth_FromRequest (anonymous_request status_body) = (None, Some ErrNoAuthInfo)"
    by (simp add: anonymous_request_def)
  have h4: "MethodRequiresWallet demo_env (Method status_request) (Params status_request)
            \<longrightarrow> GetAuthError demo_env None (Some ErrNoAuthInfo) = None"
    by (simp add: demo_env_def status_request_def)
  have h5: "GetSDKAddress (router demo_world) None = ''''"
    by (simp add: GetSDKAddress_def)
  have h6: "servers (router demo_world) \<noteq> []"
    by (simp add: demo_world_def demo_router_def)
  have h7: "(0::int) = (if MethodAcceptsWallet demo_env (Method status_request)
                           \<and> (None :: User option) \<noteq> None
                        then ID (the None) else 0)"
    by simp
  have len: "length (servers (router demo_world)) = 2"
    by (simp add: demo_world_def demo_router_def)
  have srv: "servers (router demo_world) ! (5 mod length (servers (router demo_world)))
               = \<lparr>Address = ''http://lbrynet2:5279''\<rparr>"
    unfolding len by (simp add: demo_world_def demo_router_def)
  have first: "servers (router demo_world) ! 0 = \<lparr>Address = ''http://lbrynet1:5279''\<rparr>"
    by (simp add: demo_world_def demo_router_def)
  have dist: "distinct (map Address (servers (router demo_world)))"
    by (simp add: demo_world_def demo_router_def)
  have ev: "events demo_world = []"
    by (simp add: demo_world_def)
  note T = Handle_random_backend [OF h1 h2 h3 h4 h5 h6 h7, of 5]
  from T [THEN conjunct1] have a: "\<exists>rest.
      events (snd (Handle demo_env 5 (anonymous_request status_body) demo_world))
        = EvNewCaller ''http://lbrynet2:5279'' 0 # rest"
    by (simp add: srv ev)
  from T [THEN conjunct2, THEN conjunct2, THEN conjunct1, rule_format, OF dist, of 0 3]
  have b: "card {d. d < 3 * 2 \<and>
      (\<exists>rest. events (snd (Handle demo_env d (anonymous_request status_body) demo_world))
         = EvNewCaller ''http://lbrynet1:5279'' 0 # rest)} = 3"
    by (simp add: len first ev)
  from a b show ?thesis
    by blast
qed

text \<open>
  The second half of claim C10 says that an authenticated user who calls a method that does
  not accept a wallet is handled as an anonymous caller is, for the backend as well. The
  backend is chosen from the user on line 110, whatever the method accepts: for the method
  \<^verbatim>\<open>status\<close>, which accepts no wallet, the user 7 is sent to the backend it is bound
  to, and the anonymous caller with the same draw to another one.
\<close>

theorem Handle_bound_user_backend_counterexample:
  "\<not> MethodAcceptsWallet demo_env (Method status_request) \<and>
   hd (events (snd (Handle demo_env 0 (user_request 7 status_body) demo_world)))
     = EvNewCaller ''http://lbrynet2:5279'' 0 \<and>
   hd (events (snd (Handle demo_env 0 (anonymous_request status_body) demo_world)))
     = EvNewCaller ''http://lbrynet1:5279'' 0"
proof -
  have dec: "Unmarshal demo_env status_body = Inr (Some status_request)"
    by (simp add: demo_env_def demo_Unmarshal_def status_body_def wallet_send_body_def)
  have free: "\<not> MethodRequiresWallet demo_env (Method status_request) (Params status_request)"
    "\<not> MethodAcceptsWallet demo_env (Method status_request)"
    by (simp_all add: demo_env_def status_request_def)
  have user_addr: "Handle_sdkAddress (router demo_world) 0 (Some \<lparr>ID = 7\<rparr>)
      = Some ''http://lbrynet2:5279''"
    by (simp add: Handle_sdkAddress_def GetSDKAddress_def demo_world_def demo_router_def)
  have anon_addr: "Handle_sdkAddress (router demo_world) 0 None = Some ''http://lbrynet1:5279''"
    by (simp add: Handle_sdkAddress_def GetSDKAddress_def RandomServer_def demo_world_def
        demo_router_def)
  have ev: "events (AddJSONContentType demo_env demo_world) = []"
    by (simp add: AddJSONContentType_def demo_world_def)
  have "Handle demo_env 0 (user_request 7 status_body) demo_world =
      Handle_call demo_env (user_request 7 status_body) status_body status_request
        (Handle_userID demo_env status_request (Some \<lparr>ID = 7\<rparr>)) ''http://lbrynet2:5279''
        (AddJSONContentType demo_env demo_world)"
    by (rule Handle_reaches_call [OF _ dec _ _ user_addr])
       (simp_all add: user_request_def free)
  with Handle_call_events [of demo_env "user_request 7 status_body" status_body
      status_request "Handle_userID demo_env status_request (Some \<lparr>ID = 7\<rparr>)"
      "''http://lbrynet2:5279''" "AddJSONContentType demo_env demo_world"]
  have a: "hd (events (snd (Handle demo_env 0 (user_request 7 status_body) demo_world)))
      = EvNewCaller ''http://lbrynet2:5279'' 0"
    by (auto simp add: ev Handle_events_def Handle_userID_def free)
  have "Handle demo_env 0 (anonymous_request status_body) demo_world =
      Handle_call demo_env (anonymous_request status_body) status_body status_request
        (Handle_userID demo_env status_request None) ''http://lbrynet1:5279''
        (AddJSONContentType demo_env demo_world)"
    by (rule Handle_reaches_call [OF _ dec _ _ anon_addr])
       (simp_all add: anonymous_request_def free)
  with Handle_call_events [of demo_env "anonymous_request status_body" status_body
      status_request "Handle_userID demo_env status_request None"
      "''http://lbrynet1:5279''" "AddJSONContentType demo_env demo_world"]
  have b: "hd (events (snd (Handle demo_env 0 (anonymous_request status_body) demo_world)))
      = EvNewCaller ''http://lbrynet1:5279'' 0"
    by (auto simp add: ev Handle_events_def Handle_userID_def)
  from free(2) a b show ?thesis
    by blast
qed

text \<open>
  Claim C10, as amended. The request is decoded and let through, and the backend address is
  the sticky one of the user when there is one and that of a random server otherwise. Then
  the caller is constructed at that address with the user id of the user when the method
  accepts a wallet and a user was resolved, and with 0 otherwise; the second hook and the
  caller given to the backend call carry the same user id. So an authenticated user on a
  method that does not accept a wallet gets the user id 0 of an anonymous caller, and keeps
  the backend address of the user.
\<close>

theorem Handle_caller_userID:
  assumes "Body r = Some (Inr body)"
    and "Unmarshal env body = Inr (Some rpcReq)"
    and "auth_FromRequest r = (user, err)"
    and "MethodRequiresWallet env (Method rpcReq) (Params rpcReq)
           \<longrightarrow> GetAuthError env user err = None"
    and "(GetSDKAddress (router s) user = sdkAddress \<and> sdkAddress \<noteq> '''') \<or>
         (GetSDKAddress (router s) user = '''' \<and> RandomServer (router s) draw = Some srv \<and>
          sdkAddress = Address srv)"
    and "userID = (if MethodAcceptsWallet env (Method rpcReq) \<and> user \<noteq> None
                   then ID (the user) else 0)"
  shows "\<exists>rest.
           events (snd (Handle env draw r s))
             = events s @
               [EvNewCaller sdkAddress userID,
                EvAddPostflightHook ''wallet_'' (LogRemoteIP (ip_FromRequest r)),
                EvAddPostflightHook (MethodWalletSend env)
                  (AuditLogQuery userID (ip_FromRequest r) body),
                EvInstallHooks,
                EvCall
                  ((InstallHooks env
                      \<lparr>caller_endpoint = sdkAddress,
                       caller_userID = userID,
                       caller_hooks =
                         [(''wallet_'', LogRemoteIP (ip_FromRequest r)),
                          (MethodWalletSend env,
                           AuditLogQuery userID (ip_FromRequest r) body)],
                       Cache = None\<rparr>)
                   \<lparr>Cache := cache_FromRequest r\<rparr>)
                  rpcReq] @ rest"
proof -
  have uid: "userID = Handle_userID env rpcReq user"
    using assms(6) by (simp add: Handle_userID_def)
  have addr: "Handle_sdkAddress (router s) draw user = Some sdkAddress"
    using assms(5) by (auto simp add: Handle_sdkAddress_def)
  have run: "Handle env draw r s =
      Handle_call env r body rpcReq userID sdkAddress (AddJSONContentType env s)"
    unfolding uid using assms(1-4) addr by (rule Handle_reaches_call)
  from Handle_call_events [of env r body rpcReq userID sdkAddress "AddJSONContentType env s"]
  show ?thesis
    by (simp add: run Handle_events_def Handle_caller_def NewCaller_def
        AddPostflightHook_def AddJSONContentType_def Let_def)
qed

theorem Handle_caller_userID_witness:
  "\<exists>rest.
     events (snd (Handle demo_env 0 (user_request 7 status_body) demo_world))
       = [EvNewCaller ''http://lbrynet2:5279'' 0,
          EvAddPostflightHook ''wallet_'' (LogRemoteIP ''203.0.113.9''),
          EvAddPostflightHook ''wallet_send'' (AuditLogQuery 0 ''203.0.113.9'' status_body),
          EvInstallHooks,
          EvCall
            \<lparr>caller_endpoint = ''http://lbrynet2:5279'',
             caller_userID = 0,
             caller_hooks =
               [(''wallet_'', LogRemoteIP ''203.0.113.9''),
                (''wallet_send'', AuditLogQuery 0 ''203.0.113.9'' status_body)],
             Cache = None\<rparr>
            status_request] @ rest"
proof -
  have h1: "Body (user_request 7 status_body) = Some (Inr status_body)"
    by (simp add: user_request_def)
  have h2: "Unmarshal demo_env status_body = Inr (Some status_request)"
    by (simp add: demo_env_def demo_Unmarshal_def status_body_def wallet_send_body_def)
  have h3: "auth_FromRequest (user_request 7 status_body) = (Some \<lparr>ID = 7\<rparr>, None)"
    by (simp add: user_request_def)
  have h4: "MethodRequiresWallet demo_env (Method status_request) (Params status_request)
            \<longrightarrow> GetAuthError demo_env (Some \<lparr>ID = 7\<rparr>) None = None"
    by (simp add: demo_env_def status_request_def)
  have h5: "(GetSDKAddress (router demo_world) (Some \<lparr>ID = 7\<rparr>) = ''http://lbrynet2:5279'' \<and>
             ''http://lbrynet2:5279'' \<noteq> '''') \<or>
            (GetSDKAddress (router demo_world) (Some \<lparr>ID = 7\<rparr>) = '''' \<and>
             RandomServer (router demo_world) 0 = Some \<lparr>Address = ''http://lbrynet1:5279''\<rparr> \<and>
             ''http://lbrynet2:5279'' = Address \<lparr>Address = ''http://lbrynet1:5279''\<rparr>)"
    by (simp add: GetSDKAddress_def demo_world_def demo_router_def)
  have h6: "(0::int) = (if MethodAcceptsWallet demo_env (Method status_request)
                           \<and> Some \<lparr>ID = 7\<rparr> \<noteq> None
                        then ID (the (Some \<lparr>ID = 7\<rparr>)) else 0)"
    by (simp add: demo_env_def status_request_def)
  from Handle_caller_userID [OF h1 h2 h3 h4 h5 h6]
  show ?thesis
    by (simp add: demo_world_def demo_env_def user_request_def)
qed

end
